theory Spec2Isabelle
  imports Complex_Main "HOL-Library.AList"
begin

section \<open>Data model of \<open>DFlowFMModel\<close> (dflowfm.py)\<close>

text \<open>
  The Python exceptions the modelled methods can raise. A method that raises returns
  \<open>Inl e\<close>; a method that returns normally returns \<open>Inr\<close> of its result.
\<close>

datatype error =
    KeyError string
  | ValueError string
  | NotImplementedError string
  | IndexError
  | AttributeError
  | TypeError
  | UnboundLocalError string
  | AssertionError string
  | MergeError

text \<open>
  The model's logger: every call \<open>self.logger.<level>(msg)\<close> appends one entry. The
  values interpolated into an f-string are kept beside the fixed text of the message.
\<close>

datatype level = Debug | Info | Warning | Error

record log_entry =
  lvl :: level
  text_of :: string
  args_of :: "string list"

definition log_record :: "level \<Rightarrow> string \<Rightarrow> string list \<Rightarrow> log_entry" where
  "log_record l t a = \<lparr>lvl = l, text_of = t, args_of = a\<rparr>"

text \<open>
  A cell of a GeoDataFrame. A missing cell (NaN / None) is the absence of the column
  name in the row. A row carries its index label, its geometry and its other cells; a
  frame carries its column names and its rows in order. Floats are idealised as reals.
\<close>

datatype val = Num real | Str string | Flag bool

datatype geom = Point real real | LineString "(real \<times> real) list"

record row =
  label :: string
  geometry :: geom
  cells :: "(string \<times> val) list"

record gdf =
  columns :: "string list"
  rows :: "row list"

definition empty_gdf :: gdf where
  \<comment> \<open>\<open>gpd.GeoDataFrame()\<close>\<close>
  "empty_gdf = \<lparr>columns = [], rows = []\<rparr>"

definition cell :: "row \<Rightarrow> string \<Rightarrow> val option" where
  "cell r c = map_of (cells r) c"

definition len :: "gdf \<Rightarrow> nat" where
  "len g = length (rows g)"

text \<open>
  xarray variables and datasets: a variable has named dimensions and its entries along
  the first dimension; a dataset has its data variables and the table of its dimension
  sizes. \<open>self._mesh\<close> is a
  UgridDataset: the names of its grids (with the face areas of each), and its dataset.
\<close>

record var =
  vdims :: "string list"
  vdata :: "val list list"

record dataset =
  data_vars :: "(string \<times> var) list"
  dims :: "(string \<times> nat) list"

record grid =
  area :: "real list"

record ugrid =
  grids :: "(string \<times> grid) list"
  ds :: dataset

record dataarray =
  da_name :: string
  da_time :: "int list"
  da_values :: "(string \<times> real list) list"

text \<open>The part of the state of a \<open>DFlowFMModel\<close> that the modelled methods read and write.\<close>

record model =
  logger :: "log_entry list"
  read_mode :: bool
  branches_field :: "gdf option"
  geoms :: "(string \<times> gdf) list"
  mesh_field :: "ugrid option"
  forcing :: "(string \<times> dataarray) list"

definition logmsg :: "level \<Rightarrow> string \<Rightarrow> string list \<Rightarrow> model \<Rightarrow> model" where
  "logmsg l t a s = s\<lparr>logger := logger s @ [log_record l t a]\<rparr>"

definition bind_result :: "error + 'a \<Rightarrow> ('a \<Rightarrow> error + 'b) \<Rightarrow> error + 'b" where
  \<comment> \<open>sequencing: an exception raised by the first statement skips the rest\<close>
  "bind_result r f = (case r of Inl e \<Rightarrow> Inl e | Inr x \<Rightarrow> f x)"

section \<open>Geoms, branches and the open and closed system\<close>

definition set_geoms :: "gdf \<Rightarrow> string \<Rightarrow> model \<Rightarrow> model" where
  \<comment> \<open>hydromt's \<open>Model.set_geoms\<close>: warns when the name is replaced, then stores the frame.\<close>
  "set_geoms geom name s =
     (let s1 = (if name \<in> set (map fst (geoms s))
                then logmsg Warning ''Replacing geom: '' [name] s else s)
      in s1\<lparr>geoms := AList.update name geom (geoms s1)\<rparr>)"

definition branches :: "(model \<Rightarrow> model) \<Rightarrow> model \<Rightarrow> gdf \<times> model" where
  \<comment> \<open>The property \<open>branches\<close>; \<open>read_mesh\<close> reads the network file in read mode.\<close>
  "branches read_mesh s =
     (let s1 = (if branches_field s = None \<and> read_mode s then read_mesh s else s)
      in case branches_field s1 of
           None \<Rightarrow> (empty_gdf, s1\<lparr>branches_field := Some empty_gdf\<rparr>)
         | Some b \<Rightarrow> (b, s1))"

definition mesh :: "(model \<Rightarrow> model) \<Rightarrow> model \<Rightarrow> ugrid option \<times> model" where
  \<comment> \<open>The property \<open>mesh\<close> of hydromt's \<open>MeshModel\<close>.\<close>
  "mesh read_mesh s =
     (let s1 = (if mesh_field s = None \<and> read_mode s then read_mesh s else s)
      in (mesh_field s1, s1))"

definition mesh_names :: "ugrid option \<Rightarrow> string list" where
  "mesh_names m = (case m of None \<Rightarrow> [] | Some u \<Rightarrow> map fst (grids u))"

definition network1d_dataset :: "(model \<Rightarrow> model) \<Rightarrow> model \<Rightarrow> error + ugrid \<times> model" where
  \<comment> \<open>\<open>self.mesh_datasets["network1d"]\<close>\<close>
  "network1d_dataset read_mesh s =
     (case mesh read_mesh s of
        (None, s1) \<Rightarrow> Inl (KeyError ''network1d'')
      | (Some m, s1) \<Rightarrow> if ''network1d'' \<in> set (map fst (grids m)) then Inr (m, s1)
                        else Inl (KeyError ''network1d''))"

definition isin :: "string list \<Rightarrow> row \<Rightarrow> bool" where
  \<comment> \<open>one entry of \<open>df["branchtype"].isin(names)\<close>; a missing cell is not in any list\<close>
  "isin names r =
     (case cell r ''branchtype'' of Some (Str t) \<Rightarrow> t \<in> set names | _ \<Rightarrow> False)"

definition select_branchtype :: "string list \<Rightarrow> gdf \<Rightarrow> error + gdf" where
  \<comment> \<open>\<open>df[df["branchtype"].isin(names)]\<close>; reading an absent column raises KeyError\<close>
  "select_branchtype names b =
     (if ''branchtype'' \<in> set (columns b)
      then Inr (b\<lparr>rows := filter (isin names) (rows b)\<rparr>)
      else Inl (KeyError ''branchtype''))"

definition opensystem :: "(model \<Rightarrow> model) \<Rightarrow> model \<Rightarrow> (error + gdf) \<times> model" where
  "opensystem read_mesh s =
     (let (b, s1) = branches read_mesh s
      in if len b > 0 then (select_branchtype [''river'', ''channel''] b, s1)
         else (Inr empty_gdf, s1))"

definition closedsystem :: "(model \<Rightarrow> model) \<Rightarrow> model \<Rightarrow> (error + gdf) \<times> model" where
  "closedsystem read_mesh s =
     (let (b, s1) = branches read_mesh s
      in if len b > 0 then (select_branchtype [''pipe'', ''tunnel''] b, s1)
         else (Inr empty_gdf, s1))"

definition set_branches_component ::
  "(model \<Rightarrow> model) \<Rightarrow> string \<Rightarrow> model \<Rightarrow> error + gdf \<times> model" where
  "set_branches_component read_mesh name s =
     (let (b, s1) = branches read_mesh s
      in case select_branchtype [name] b of
           Inl e \<Rightarrow> Inl e
         | Inr gdf_comp \<Rightarrow>
             if length (rows gdf_comp) > 0
             then Inr (gdf_comp, set_geoms gdf_comp (name @ ''s'') s1)
             else Inr (gdf_comp, s1))"

definition set_branches :: "(model \<Rightarrow> model) \<Rightarrow> gdf \<Rightarrow> model \<Rightarrow> error + model" where
  "set_branches read_mesh new_branches s =
     (let s1 = (if ''branchtype'' \<in> set (columns new_branches)
                then s\<lparr>branches_field := Some new_branches\<rparr>
                else logmsg Error
                  '''branchtype' column absent from the new branches, could not update.'' [] s)
      in case set_branches_component read_mesh ''river'' s1 of
           Inl e \<Rightarrow> Inl e
         | Inr (_, s2) \<Rightarrow>
             (case set_branches_component read_mesh ''channel'' s2 of
                Inl e \<Rightarrow> Inl e
              | Inr (_, s3) \<Rightarrow>
                  (case set_branches_component read_mesh ''pipe'' s3 of
                     Inl e \<Rightarrow> Inl e
                   | Inr (_, s4) \<Rightarrow>
                       Inr (logmsg Debug ''Updating branches in network.'' []
                             (set_geoms new_branches ''branches''
                               (logmsg Debug ''Adding branches vector to geoms.'' [] s4))))))"

section \<open>Branch identifiers in \<open>_setup_branches\<close>\<close>

text \<open>
  Python's \<open>str\<close> of a non-negative integer: its decimal digits, most significant first.
\<close>

definition digit_char :: "nat \<Rightarrow> char" where
  "digit_char d = char_of (48 + d)"

fun str_of_nat :: "nat \<Rightarrow> string" where
  "str_of_nat n =
     (if n < 10 then [digit_char n]
      else str_of_nat (n div 10) @ [digit_char (n mod 10)])"

declare str_of_nat.simps [simp del]

definition set_column :: "string \<Rightarrow> val list \<Rightarrow> gdf \<Rightarrow> gdf" where
  \<comment> \<open>\<open>df[c] = pd.Series(data, index=df.index)\<close>, one value for each row in order\<close>
  "set_column c data g =
     \<lparr>columns = (if c \<in> set (columns g) then columns g else columns g @ [c]),
      rows = map (\<lambda>(r, v). r\<lparr>cells := AList.update c v (cells r)\<rparr>) (zip (rows g) data)\<rparr>"

definition label_of :: "val option \<Rightarrow> string" where
  \<comment> \<open>the index label made from a cell of the id column\<close>
  "label_of v = (case v of Some (Str t) \<Rightarrow> t | _ \<Rightarrow> ''nan'')"

definition set_index :: "string \<Rightarrow> gdf \<Rightarrow> gdf" where
  \<comment> \<open>\<open>df.index = df[id_col]\<close>\<close>
  "set_index id_col g = g\<lparr>rows := map (\<lambda>r. r\<lparr>label := label_of (cell r id_col)\<rparr>) (rows g)\<rparr>"

definition new_branchids :: "string \<Rightarrow> nat \<Rightarrow> nat \<Rightarrow> string list" where
  \<comment> \<open>\<open>[f"{br_type}_{i}" for i in np.arange(n_old + 1, n_old + n_new + 1)]\<close>\<close>
  "new_branchids br_type n_old n_new =
     map (\<lambda>i. br_type @ ''_'' @ str_of_nat i) [n_old + 1 ..< n_old + n_new + 1]"

definition setup_branches_ids ::
  "(model \<Rightarrow> model) \<Rightarrow> string \<Rightarrow> gdf \<Rightarrow> model \<Rightarrow> gdf \<times> model" where
  \<comment> \<open>step 2 of \<open>_setup_branches\<close> up to the assignment of the index (lines 304 to 322)\<close>
  "setup_branches_ids read_mesh br_type gdf_br s =
     (let g1 = set_column ''branchtype'' (replicate (len gdf_br) (Str br_type)) gdf_br
      in if ''branchid'' \<notin> set (columns g1)
         then (let (b, s1) = branches read_mesh s;
                   data = new_branchids br_type (len b) (len g1)
               in (set_index ''branchid'' (set_column ''branchid'' (map Str data) g1), s1))
         else (set_index ''branchid'' g1, s))"

definition branchids :: "gdf \<Rightarrow> string list" where
  \<comment> \<open>the identifiers in the \<open>branchid\<close> column of a frame\<close>
  "branchids b = [t. r \<leftarrow> rows b, Str t \<leftarrow> (case cell r ''branchid'' of None \<Rightarrow> [] | Some v \<Rightarrow> [v])]"

section \<open>Manholes\<close>

text \<open>
  hydromt's \<open>gis_utils.nearest_merge(gdf1, gdf2, max_dist, overwrite)\<close>: every feature of
  \<open>gdf1\<close> looks up the nearest feature of \<open>gdf2\<close>; where the distance is below
  \<open>max_dist\<close> the attributes of that feature are merged into the row. Unless \<open>overwrite\<close>
  is set, a value of \<open>gdf2\<close> only fills a cell of \<open>gdf1\<close> that is missing or the empty string.
  The geometry column is never merged. The distance between two geometries is shapely's
  and is a parameter here.
\<close>

fun nearest :: "(geom \<Rightarrow> geom \<Rightarrow> real) \<Rightarrow> geom \<Rightarrow> row list \<Rightarrow> (row \<times> real) option" where
  "nearest distance g [] = None"
| "nearest distance g (r # rs) =
     (case nearest distance g rs of
        None \<Rightarrow> Some (r, distance g (geometry r))
      | Some (r', d') \<Rightarrow>
          if distance g (geometry r) \<le> d' then Some (r, distance g (geometry r))
          else Some (r', d'))"

definition put_cell :: "string \<Rightarrow> val option \<Rightarrow> (string \<times> val) list \<Rightarrow> (string \<times> val) list" where
  "put_cell c v cs = (case v of None \<Rightarrow> AList.delete c cs | Some x \<Rightarrow> AList.update c x cs)"

definition is_null_or_empty :: "val option \<Rightarrow> bool" where
  \<comment> \<open>\<open>old_vals.isnull() | old_vals.eq("")\<close>\<close>
  "is_null_or_empty v = (v = None \<or> v = Some (Str []))"

definition merge_cell :: "string list \<Rightarrow> bool \<Rightarrow> row \<Rightarrow> string \<Rightarrow> row \<Rightarrow> row" where
  \<comment> \<open>the body of the loop over the columns of \<open>gdf2\<close>, for one valid row of \<open>gdf1\<close>\<close>
  "merge_cell cols1 overwrite r2 col r1 =
     (if col = ''geometry'' then r1
      else let new_val = cell r2 col;
               v = (if col \<in> set cols1 \<and> \<not> overwrite
                    then (if is_null_or_empty (cell r1 col) then new_val else cell r1 col)
                    else new_val)
           in r1\<lparr>cells := put_cell col v (cells r1)\<rparr>)"

definition merge_row ::
  "(geom \<Rightarrow> geom \<Rightarrow> real) \<Rightarrow> gdf \<Rightarrow> gdf \<Rightarrow> real \<Rightarrow> bool \<Rightarrow> row \<Rightarrow> error + row" where
  "merge_row distance gdf1 gdf2 max_dist overwrite r1 =
     (case nearest distance (geometry r1) (rows gdf2) of
        None \<Rightarrow> Inl (ValueError ''nearest: no features in gdf2'')
      | Some (r2, dst) \<Rightarrow>
          (let valid = (dst < max_dist);
               ra = r1\<lparr>cells := AList.update ''index_right''
                                    (if valid then Str (label r2) else Num (- 1))
                                    (AList.update ''distance_right'' (Num dst) (cells r1))\<rparr>
           in Inr (if valid
                   then fold (merge_cell (columns gdf1) overwrite r2) (columns gdf2) ra
                   else ra)))"

fun map_result :: "('a \<Rightarrow> error + 'b) \<Rightarrow> 'a list \<Rightarrow> error + 'b list" where
  "map_result f [] = Inr []"
| "map_result f (x # xs) =
     bind_result (f x) (\<lambda>y. bind_result (map_result f xs) (\<lambda>ys. Inr (y # ys)))"

definition add_columns :: "string list \<Rightarrow> string list \<Rightarrow> string list" where
  "add_columns cols new = cols @ filter (\<lambda>c. c \<notin> set cols) (remdups new)"

definition nearest_merge ::
  "(geom \<Rightarrow> geom \<Rightarrow> real) \<Rightarrow> gdf \<Rightarrow> gdf \<Rightarrow> real \<Rightarrow> bool \<Rightarrow> error + gdf" where
  "nearest_merge distance gdf1 gdf2 max_dist overwrite =
     bind_result (map_result (merge_row distance gdf1 gdf2 max_dist overwrite) (rows gdf1))
       (\<lambda>rs. Inr \<lparr>columns = add_columns (columns gdf1)
                               ([''distance_right'', ''index_right'']
                                @ filter (\<lambda>c. c \<noteq> ''geometry'') (columns gdf2)),
                   rows = rs\<rparr>)"

definition allowed_columns_manholes :: "string list" where
  "allowed_columns_manholes =
     [''geometry'', ''id'', ''name'', ''manholeid'', ''nodeid'', ''area'', ''bedlevel'',
      ''streetlevel'', ''streetstoragearea'', ''storagetype'', ''usetable'']"

definition select_columns :: "string list \<Rightarrow> gdf \<Rightarrow> gdf" where
  \<comment> \<open>\<open>df[list(set(allowed).intersection(df.columns))]\<close>\<close>
  "select_columns allowed g =
     \<lparr>columns = filter (\<lambda>c. c \<in> set allowed) (columns g),
      rows = map (\<lambda>r. r\<lparr>cells := filter (\<lambda>(c, v). c \<in> set allowed) (cells r)\<rparr>) (rows g)\<rparr>"

definition copy_column :: "string \<Rightarrow> string \<Rightarrow> gdf \<Rightarrow> error + gdf" where
  \<comment> \<open>\<open>df[dst] = df[src]\<close>\<close>
  "copy_column src dst g =
     (if src \<in> set (columns g)
      then Inr \<lparr>columns = add_columns (columns g) [dst],
                rows = map (\<lambda>r. r\<lparr>cells := put_cell dst (cell r src) (cells r)\<rparr>) (rows g)\<rparr>
      else Inl (KeyError src))"

definition streetlevel_from_dem :: "(row \<Rightarrow> real option) \<Rightarrow> gdf \<Rightarrow> error + gdf" where
  \<comment> \<open>the sampled elevation, where there is one, replaces the street level\<close>
  "streetlevel_from_dem sample g =
     (if ''streetlevel'' \<in> set (columns g)
      then Inr \<lparr>columns = add_columns (columns g) [''_streetlevel_dem''],
                rows = map (\<lambda>r.
                   let v = (case sample r of Some z \<Rightarrow> Some (Num z)
                            | None \<Rightarrow> cell r ''streetlevel'')
                   in r\<lparr>cells := put_cell ''streetlevel'' v
                                     (put_cell ''_streetlevel_dem'' v (cells r))\<rparr>) (rows g)\<rparr>
      else Inl (KeyError ''streetlevel''))"

definition has_na :: "string list \<Rightarrow> gdf \<Rightarrow> bool" where
  \<comment> \<open>\<open>df[cols].isna().any().any()\<close>; the geometry column is never missing\<close>
  "has_na cols g =
     list_ex (\<lambda>r. list_ex (\<lambda>c. c \<noteq> ''geometry'' \<and> cell r c = None) cols) (rows g)"

text \<open>
  \<open>setup_manholes\<close>. Its collaborators are parameters: \<open>generate\<close> is
  \<open>workflows.generate_manholes_on_branches\<close> (the generated manholes, with the bed level
  derived from the invert levels of the connected pipes and \<open>bedlevel_shift\<close>, and the
  branches), \<open>add_defaults\<close> is \<open>workflows.update_data_columns_attributes\<close> applied to
  the defaults table, \<open>manholes_fn\<close> is the user's frame as the data catalogue returns it
  in the model's CRS (\<open>None\<close> when no source is given), \<open>dem\<close> samples the elevation
  raster (\<open>None\<close> when \<open>dem_fn\<close> is not given), \<open>nodes_of\<close> is
  \<open>mesh_utils.network1d_nodes_geodataframe\<close>.
\<close>

definition setup_manholes ::
  "(model \<Rightarrow> model) \<Rightarrow> (gdf \<Rightarrow> real \<Rightarrow> gdf \<times> gdf) \<Rightarrow> (gdf \<Rightarrow> gdf) \<Rightarrow>
   (geom \<Rightarrow> geom \<Rightarrow> real) \<Rightarrow> (ugrid \<Rightarrow> gdf) \<Rightarrow>
   gdf option \<Rightarrow> bool \<Rightarrow> real \<Rightarrow> (row \<Rightarrow> real option) option \<Rightarrow> real \<Rightarrow>
   model \<Rightarrow> error + model" where
  "setup_manholes read_mesh generate add_defaults distance nodes_of
       manholes_fn defaults_is_file bedlevel_shift dem snap_offset s =
     (let s0 = logmsg Info ''generating manholes locations and bedlevels. '' [] s;
          (b, s1) = branches read_mesh s0;
          (manholes0, new_branches) = generate b bedlevel_shift
      in bind_result (set_branches read_mesh new_branches s1) (\<lambda>s2.
         let s3 = (if \<not> defaults_is_file
                   then logmsg Warning
                     ''manhole_defaults_fn does not exist. Fall back choice to defaults. '' [] s2
                   else s2);
             s4 = logmsg Info ''manhole default settings read from manhole_defaults_fn.'' [] s3;
             manholes1 = add_defaults manholes0
         in bind_result
              (case manholes_fn of
                 None \<Rightarrow> Inr (manholes1, s4)
               | Some gdf_manhole \<Rightarrow>
                   (let s5 = logmsg Info ''reading manholes street level from file. '' [] s4;
                        user = select_columns allowed_columns_manholes gdf_manhole;
                        s6 = logmsg Debug ''filtering for allowed columns:'' (columns user) s5;
                        s7 = logmsg Debug
                               ''overwriting generated manholes using user manholes.'' [] s6
                    in bind_result (nearest_merge distance manholes1 user snap_offset True)
                         (\<lambda>m. Inr (m, s7))))
              (\<lambda>(manholes2, s8).
         bind_result
              (case dem of
                 None \<Rightarrow> Inr (manholes2, s8)
               | Some sample \<Rightarrow>
                   bind_result (streetlevel_from_dem sample manholes2)
                     (\<lambda>m. Inr (m, logmsg Debug ''street level mean is'' []
                                     (logmsg Info ''overwriting manholes street level from dem. ''
                                        [] s8))))
              (\<lambda>(manholes3, s9).
         let s10 = logmsg Debug ''dropping duplicated manholeid'' [] s9
         in if ''manholeid'' \<notin> set (columns manholes3) then Inl (KeyError ''manholeid'')
            else
         bind_result (network1d_dataset read_mesh s10) (\<lambda>(net, s10).
         bind_result (nearest_merge distance manholes3 (nodes_of net) (1 / 10) False) (\<lambda>manholes4.
         bind_result (copy_column ''nodeid'' ''id'' manholes4) (\<lambda>manholes5.
         bind_result (copy_column ''manholeid'' ''name'' manholes5) (\<lambda>manholes6.
         let manholes7 = set_column ''usetable''
                           (replicate (len manholes6) (Flag False)) manholes6
         in case filter (\<lambda>c. c \<notin> set (columns manholes7)) allowed_columns_manholes of
              c # _ \<Rightarrow> Inl (KeyError c)
            | [] \<Rightarrow>
               (let s11 = (if has_na allowed_columns_manholes manholes7
                           then logmsg Error
                             ''manholes contain no data. use manholes_defaults_fn to apply no data filling.''
                             [] s10
                           else s10)
                in Inr (set_geoms manholes7 ''manholes''
                         (logmsg Debug ''Adding manholes vector to geoms.'' [] s11)))))))))))"

section \<open>The mesh and the 1D2D links\<close>

text \<open>
  The three xarray operations \<open>set_link1d2d\<close> uses. \<open>drop_vars\<close> and \<open>drop_dims\<close> raise
  when a name is not in the dataset; \<open>drop_dims\<close> also drops every variable that uses a
  dropped dimension; \<open>merge\<close> adds the variables and dimensions of the other dataset and
  raises when a variable or a dimension size of the two conflicts.
\<close>

definition drop_vars :: "string list \<Rightarrow> dataset \<Rightarrow> error + dataset" where
  "drop_vars names d =
     (if list_all (\<lambda>n. n \<in> set (map fst (data_vars d))) names
      then Inr (d\<lparr>data_vars := filter (\<lambda>(k, v). k \<notin> set names) (data_vars d)\<rparr>)
      else Inl (ValueError ''These variables cannot be found in this dataset''))"

definition drop_dims :: "string list \<Rightarrow> dataset \<Rightarrow> error + dataset" where
  "drop_dims names d =
     (if list_all (\<lambda>n. n \<in> set (map fst (dims d))) names
      then Inr \<lparr>data_vars = filter (\<lambda>(k, v). list_all (\<lambda>x. x \<notin> set names) (vdims v))
                                   (data_vars d),
                dims = filter (\<lambda>(k, n). k \<notin> set names) (dims d)\<rparr>
      else Inl (ValueError ''Dataset does not contain the dimensions''))"

definition merge :: "dataset \<Rightarrow> dataset \<Rightarrow> error + dataset" where
  "merge d other =
     (if list_ex (\<lambda>(k, v). case map_of (data_vars d) k of None \<Rightarrow> False | Some v' \<Rightarrow> v' \<noteq> v)
           (data_vars other)
      then Inl MergeError
      else if list_ex (\<lambda>(k, n). case map_of (dims d) k of None \<Rightarrow> False | Some n' \<Rightarrow> n' \<noteq> n)
           (dims other)
      then Inl (ValueError ''conflicting sizes for dimension'')
      else Inr \<lparr>data_vars = data_vars d
                   @ filter (\<lambda>(k, v). k \<notin> set (map fst (data_vars d))) (data_vars other),
                dims = dims d @ filter (\<lambda>(k, n). k \<notin> set (map fst (dims d))) (dims other)\<rparr>)"

definition link_vars :: "string list" where
  "link_vars = [''link1d2d'', ''link1d2d_ids'', ''link1d2d_long_names'', ''link1d2d_contact_type'']"

definition link_dims :: "string list" where
  "link_dims = [''nLink1D2D_edge'', ''Two'']"

definition set_link1d2d :: "(model \<Rightarrow> model) \<Rightarrow> dataset \<Rightarrow> model \<Rightarrow> error + model" where
  "set_link1d2d read_mesh link1d2d s =
     (case mesh read_mesh s of
        (None, s1) \<Rightarrow> Inl AttributeError
      | (Some m, s1) \<Rightarrow>
          if ''link1d2d'' \<in> set (map fst (data_vars (ds m)))
          then (let s2 = logmsg Info ''Overwriting existing link1d2d in self.mesh.'' [] s1
                in bind_result (drop_vars link_vars (ds m)) (\<lambda>d1.
                   bind_result (drop_dims link_dims d1) (\<lambda>d2.
                   bind_result (merge d2 link1d2d) (\<lambda>d3.
                   Inr (s2\<lparr>mesh_field := Some (m\<lparr>ds := d3\<rparr>)\<rparr>)))))
          else bind_result (merge (ds m) link1d2d) (\<lambda>d3.
                   Inr (s1\<lparr>mesh_field := Some (m\<lparr>ds := d3\<rparr>)\<rparr>)))"

text \<open>
  \<open>set_mesh\<close>. \<open>super_set_mesh\<close> is the method of hydromt's \<open>MeshModel\<close> that the
  override calls first; \<open>get_boundaries\<close> is \<open>workflows.get_boundaries_with_nodeid\<close> and
  \<open>nodes_of\<close> is \<open>mesh_utils.network1d_nodes_geodataframe\<close>.
\<close>

definition set_mesh ::
  "(model \<Rightarrow> model) \<Rightarrow>
   (ugrid \<Rightarrow> string option \<Rightarrow> string option \<Rightarrow> bool \<Rightarrow> model \<Rightarrow> error + model) \<Rightarrow>
   (gdf \<Rightarrow> gdf \<Rightarrow> gdf) \<Rightarrow> (ugrid \<Rightarrow> gdf) \<Rightarrow>
   ugrid \<Rightarrow> string option \<Rightarrow> string option \<Rightarrow> bool \<Rightarrow> model \<Rightarrow> error + model" where
  "set_mesh read_mesh super_set_mesh get_boundaries nodes_of data name grid_name overwrite_grid s =
     (let (m0, s0) = mesh read_mesh s;
          new_grid = (case grid_name of None \<Rightarrow> True | Some g \<Rightarrow> g \<notin> set (mesh_names m0))
      in bind_result (super_set_mesh data name grid_name overwrite_grid s0) (\<lambda>s1.
         bind_result
           (if overwrite_grid
            then (case mesh read_mesh s1 of
                    (None, s2) \<Rightarrow> Inl AttributeError
                  | (Some m, s2) \<Rightarrow>
                      if ''link1d2d'' \<in> set (map fst (data_vars (ds m)))
                         \<and> (grid_name = Some ''mesh1d'' \<or> grid_name = Some ''mesh2d'')
                      then Inr (logmsg Warning
                             '' grid was updated in self.mesh. Re-run setup_link1d2d method to update the model 1D2D links.''
                             [case grid_name of Some g \<Rightarrow> g | None \<Rightarrow> ''None''] s2)
                      else Inr s2)
            else Inr s1)
           (\<lambda>s3.
              if (overwrite_grid \<or> new_grid) \<and> grid_name = Some ''mesh1d''
              then (let (b, s4) = branches read_mesh s3
                    in bind_result (network1d_dataset read_mesh s4) (\<lambda>(net, s5).
                         Inr (set_geoms (get_boundaries b (nodes_of net)) ''boundaries'' s5)))
              else Inr s3)))"

text \<open>
  \<open>setup_link1d2d\<close>. The three link generators of \<open>workflows\<close> are parameters; each
  receives \<open>self.mesh\<close> and returns the dataset of the links or raises. \<open>polygon\<close> is the
  frame the data catalogue returns for \<open>polygon_fn\<close>.
\<close>

definition max_face_diagonal :: "ugrid option \<Rightarrow> error + real" where
  \<comment> \<open>\<open>np.sqrt(self.mesh_grids["mesh2d"].area.max()) * np.sqrt(2)\<close>\<close>
  "max_face_diagonal m =
     (case map_of (case m of None \<Rightarrow> [] | Some u \<Rightarrow> grids u) ''mesh2d'' of
        None \<Rightarrow> Inl (KeyError ''mesh2d'')
      | Some g \<Rightarrow>
          (case area g of
             [] \<Rightarrow> Inl (ValueError ''zero-size array to reduction operation maximum'')
           | a # as \<Rightarrow> Inr (sqrt (fold max as a) * sqrt 2)))"

definition branchids_of_type ::
  "(model \<Rightarrow> model) \<Rightarrow> string \<Rightarrow> model \<Rightarrow> error + string list \<times> model" where
  \<comment> \<open>\<open>self.branches[self.branches.branchtype == branch_type].branchid.to_list()\<close>\<close>
  "branchids_of_type read_mesh branch_type s =
     (let (b, s1) = branches read_mesh s
      in if ''branchtype'' \<notin> set (columns b) \<or> ''branchid'' \<notin> set (columns b)
         then Inl AttributeError
         else Inr (map (\<lambda>r. label_of (cell r ''branchid''))
                     (filter (isin [branch_type]) (rows b)), s1))"

definition setup_link1d2d ::
  "(model \<Rightarrow> model) \<Rightarrow>
   (ugrid option \<Rightarrow> string list option \<Rightarrow> geom list option \<Rightarrow> real \<Rightarrow> error + dataset) \<Rightarrow>
   (ugrid option \<Rightarrow> string list option \<Rightarrow> geom list option \<Rightarrow> error + dataset) \<Rightarrow>
   (ugrid option \<Rightarrow> string list option \<Rightarrow> geom list option \<Rightarrow> 'l \<Rightarrow> 'f \<Rightarrow> error + dataset) \<Rightarrow>
   string \<Rightarrow> string \<Rightarrow> gdf option \<Rightarrow> string option \<Rightarrow> 'l \<Rightarrow> 'f \<Rightarrow>
   model \<Rightarrow> error + model" where
  "setup_link1d2d read_mesh links_1d_to_2d links_2d_to_1d_embedded links_2d_to_1d_lateral
       link_direction link_type polygon branch_type max_length dist_factor s =
     (let (m, s0) = mesh read_mesh s;
          s1 = (if ''mesh1d'' \<notin> set (mesh_names m) \<or> ''mesh2d'' \<notin> set (mesh_names m)
                then logmsg Error
                  ''cannot setup link1d2d: either mesh1d or mesh2d or both do not exist'' [] s0
                else s0);
          (within_geoms, s2) =
             (case polygon of
                Some g \<Rightarrow> (Some (map geometry (rows g)),
                           logmsg Info ''adding 1d2d links only within polygon'' [] s1)
              | None \<Rightarrow> (None, s1))
      in bind_result
           (case branch_type of
              Some bt \<Rightarrow>
                bind_result (branchids_of_type read_mesh bt s2) (\<lambda>(ids, s3).
                  Inr (Some ids, logmsg Info ''adding 1d2d links for branches.'' [bt] s3))
            | None \<Rightarrow>
                Inr (None, logmsg Warning
                       ''adding 1d2d links for all branches at non boundary locations.'' [] s2))
           (\<lambda>(ids, s4).
         bind_result
           (if link_direction = ''1d_to_2d''
            then (let s5 = logmsg Info ''setting up 1d_to_2d links.'' [] s4
                  in bind_result (max_face_diagonal (fst (mesh read_mesh s5))) (\<lambda>len1.
                     bind_result (links_1d_to_2d (fst (mesh read_mesh s5)) ids within_geoms len1)
                       (\<lambda>l. Inr (Some l, s5))))
            else if link_direction = ''2d_to_1d''
            then (if link_type = ''embedded''
                  then (let s5 = logmsg Info ''setting up 2d_to_1d embedded links.'' [] s4
                        in bind_result
                             (links_2d_to_1d_embedded (fst (mesh read_mesh s5)) ids within_geoms)
                             (\<lambda>l. Inr (Some l, s5)))
                  else if link_type = ''lateral''
                  then (let s5 = logmsg Info ''setting up 2d_to_1d lateral links.'' [] s4
                        in bind_result
                             (links_2d_to_1d_lateral (fst (mesh read_mesh s5)) ids within_geoms
                                max_length dist_factor)
                             (\<lambda>l. Inr (Some l, s5)))
                  else Inr (None, logmsg Error ''link_type is not recognised.'' [link_type] s4))
            else Inr (None, logmsg Error ''link_direction is not recognised.''
                              [link_direction] s4))
           (\<lambda>(link1d2d, s6).
              case link1d2d of
                None \<Rightarrow> Inl (UnboundLocalError ''link1d2d'')
              | Some l \<Rightarrow>
                  (case map_of (data_vars l) ''link1d2d'' of
                     None \<Rightarrow> Inl (KeyError ''link1d2d'')
                   | Some v \<Rightarrow>
                       if length (vdata v) = 0
                       then Inr (logmsg Warning ''No 1d2d links were generated.'' [] s6)
                       else set_link1d2d read_mesh l s6))))"

section \<open>Boundary forcing\<close>

text \<open>
  Times are seconds since a fixed epoch. \<open>tstart\<close> and \<open>tstop\<close> are what
  \<open>get_model_time\<close> returns for the model's configuration.
\<close>

definition set_forcing :: "dataarray \<Rightarrow> string \<Rightarrow> model \<Rightarrow> model" where
  \<comment> \<open>hydromt's \<open>Model.set_forcing\<close>: warns when the name is replaced, then stores the array.\<close>
  "set_forcing data name s =
     (let s1 = (if name \<in> set (map fst (forcing s))
                then logmsg Warning ''Replacing forcing: '' [name] s else s)
      in s1\<lparr>forcing := AList.update name (data\<lparr>da_name := name\<rparr>) (forcing s1)\<rparr>)"

text \<open>
  \<open>setup_1dboundary\<close>. \<open>get_boundaries\<close> is \<open>workflows.get_boundaries_with_nodeid\<close>,
  \<open>select_boundary_type\<close> and \<open>compute_boundary_values\<close> are the functions of
  \<open>workflows\<close> of these names, \<open>get_geodataset\<close> is the data catalogue, called with the
  source, the boundaries, the snap offset, the variable and the time window.
\<close>

definition time_mismatch_text :: string where
  "time_mismatch_text =
     ''forcing has different start and end time. Please check the forcing file. support yyyy-mm-dd HH:MM:SS. ''"

definition setup_1dboundary ::
  "(model \<Rightarrow> model) \<Rightarrow> (ugrid \<Rightarrow> gdf) \<Rightarrow> (gdf \<Rightarrow> gdf \<Rightarrow> gdf) \<Rightarrow>
   (gdf \<Rightarrow> string \<Rightarrow> string \<Rightarrow> string \<Rightarrow> gdf) \<Rightarrow>
   (string \<Rightarrow> gdf \<Rightarrow> real \<Rightarrow> string \<Rightarrow> int \<times> int \<Rightarrow> dataarray) \<Rightarrow>
   (gdf \<Rightarrow> dataarray option \<Rightarrow> real \<Rightarrow> string \<Rightarrow> string \<Rightarrow> real \<Rightarrow> dataarray) \<Rightarrow>
   string option \<Rightarrow> string option \<Rightarrow> real \<Rightarrow> string \<Rightarrow> string \<Rightarrow> string \<Rightarrow> string \<Rightarrow> real \<Rightarrow>
   int \<Rightarrow> int \<Rightarrow> model \<Rightarrow> error + model" where
  "setup_1dboundary read_mesh nodes_of get_boundaries select_boundary_type get_geodataset
       compute_boundary_values boundaries_geodataset_fn boundaries_timeseries_fn boundary_value
       branch_type boundary_type boundary_unit boundary_locs snap_offset tstart tstop s =
     (let s0 = logmsg Info ''Preparing 1D boundaries.'' [boundary_type, branch_type] s;
          (b, s1) = branches read_mesh s0
      in bind_result (network1d_dataset read_mesh s1) (\<lambda>(net, s2).
         let boundaries = get_boundaries b (nodes_of net);
             boundaries_branch_type =
               select_boundary_type boundaries branch_type boundary_type boundary_locs
         in bind_result
              (case boundaries_geodataset_fn of
                 Some fn \<Rightarrow>
                   (let da_bnd = (get_geodataset fn boundaries snap_offset boundary_type
                                    (tstart, tstop))\<lparr>da_name := boundary_type\<rparr>
                    in case da_time da_bnd of
                         [] \<Rightarrow> Inl IndexError
                       | t # ts \<Rightarrow>
                           if t = tstart \<and> last (t # ts) = tstop
                           then Inr (Some da_bnd, s2)
                           else Inr (Some da_bnd, logmsg Error time_mismatch_text [] s2))
               | None \<Rightarrow>
                   (case boundaries_timeseries_fn of
                      Some fn \<Rightarrow> Inl (NotImplementedError [])
                    | None \<Rightarrow> Inr (None, s2)))
              (\<lambda>(da_bnd, s3).
                 let da_out = compute_boundary_values boundaries_branch_type da_bnd boundary_value
                                boundary_type boundary_unit snap_offset
                 in Inr (set_forcing da_out
                           (''boundary1d_'' @ da_name da_out @ ''_'' @ branch_type) s3))))"

text \<open>
  \<open>setup_2dboundary\<close>. A table of time series has an index, which is of the type
  \<open>datetime64\<close> or not, and one column of values for each location. \<open>get_geodataframe\<close>
  and \<open>get_dataframe\<close> are the data catalogue, \<open>to_str\<close> is Python's \<open>str\<close> of a cell,
  \<open>compute_2dboundary_values\<close> is the function of \<open>workflows\<close>. The geometries of
  this model have one part, so \<open>explode\<close> changes nothing; the final \<open>set_config\<close> writes
  to the configuration, which is not part of the state modelled here.
\<close>

record dataframe =
  index_is_datetime :: bool
  index :: "int list"
  series :: "(string \<times> real option list) list"

definition short_series_text :: string where
  "short_series_text =
     ''Time in boundaries_timeseries_fn were shorter than model simulation time. ''"

definition boundary_ids :: "(val \<Rightarrow> string) \<Rightarrow> gdf \<Rightarrow> string list" where
  \<comment> \<open>the column \<open>boundary_id\<close>: generated when absent, else converted to strings\<close>
  "boundary_ids to_str g =
     (if ''boundary_id'' \<notin> set (columns g)
      then map (\<lambda>i. ''2dboundary_'' @ str_of_nat i) [0 ..< len g]
      else map (\<lambda>r. case cell r ''boundary_id'' of None \<Rightarrow> ''nan'' | Some v \<Rightarrow> to_str v)
             (rows g))"

function date_range :: "int \<Rightarrow> int \<Rightarrow> int list" where
  \<comment> \<open>\<open>pd.date_range(start, end, freq="D")\<close>\<close>
  "date_range start stop =
     (if start \<le> stop then start # date_range (start + 86400) stop else [])"
  by pat_completeness auto
termination
  by (relation "measure (\<lambda>(start, stop). nat (stop - start + 1))") auto

declare date_range.simps [simp del]

definition setup_2dboundary ::
  "(model \<Rightarrow> model) \<Rightarrow> (string \<Rightarrow> gdf) \<Rightarrow> (string \<Rightarrow> int \<times> int \<Rightarrow> dataframe) \<Rightarrow>
   (val \<Rightarrow> string) \<Rightarrow>
   (gdf option \<Rightarrow> dataframe \<Rightarrow> real \<Rightarrow> string \<Rightarrow> string \<Rightarrow> (string \<times> dataarray) list) \<Rightarrow>
   string option \<Rightarrow> string option \<Rightarrow> real \<Rightarrow> string \<Rightarrow> real \<Rightarrow>
   int \<Rightarrow> int \<Rightarrow> model \<Rightarrow> error + model" where
  "setup_2dboundary read_mesh get_geodataframe get_dataframe to_str compute_2dboundary_values
       boundaries_fn boundaries_timeseries_fn boundary_value boundary_type tolerance
       tstart tstop s =
     (let s0 = logmsg Info ''Preparing 2D boundaries.'' [] s;
          boundary_unit = (if boundary_type = ''discharge'' then Some ''m3/s''
                           else if boundary_type = ''waterlevel'' then Some ''m'' else None);
          (m, s1) = mesh read_mesh s0
      in if ''mesh2d'' \<notin> set (mesh_names m) then Inl (KeyError ''mesh2d'')
         else
         let (gdf_bnd, s2) =
               (case boundaries_fn of
                  None \<Rightarrow> (None, s1)
                | Some fn \<Rightarrow>
                    (let g = get_geodataframe fn;
                         s2 = (if len g = 0
                               then logmsg Error
                                 ''Boundaries are not found. Check if the boundary are outside of recognisable boundary region (cell size * tolerance to the mesh). ''
                                 [] s1
                               else s1)
                     in (Some (set_column ''boundary_id'' (map Str (boundary_ids to_str g)) g),
                         s2)))
         in bind_result
              (case boundaries_timeseries_fn of
                 Some fn \<Rightarrow>
                   (let s3 = logmsg Info ''reading timeseries boundaries'' [] s2;
                        df_bnd = get_dataframe fn (tstart, tstop)
                    in if \<not> index_is_datetime df_bnd
                       then Inl (ValueError
                              ''Dates in boundaries_timeseries_fn were not parsed correctly. '')
                       else (case index df_bnd of
                               [] \<Rightarrow> Inl IndexError
                             | t # ts \<Rightarrow>
                                 if last (t # ts) - t < tstop - tstart
                                 then Inl (ValueError short_series_text)
                                 else (case gdf_bnd of
                                         None \<Rightarrow> Inr (df_bnd, s3)
                                       | Some g \<Rightarrow>
                                           if list_all (\<lambda>bnd. bnd \<in> set (map fst (series df_bnd)))
                                                (boundary_ids to_str g)
                                           then Inr (df_bnd, s3)
                                           else Inl (AssertionError
                                                  ''Not all boundary_id are in df_bnd''))))
               | None \<Rightarrow>
                   (case gdf_bnd of
                      None \<Rightarrow> Inl TypeError
                    | Some g \<Rightarrow>
                        (let times = date_range tstart tstop
                         in Inr (\<lparr>index_is_datetime = True, index = times,
                                  series = map (\<lambda>i. (i, replicate (length times) None))
                                             (remdups (boundary_ids to_str g))\<rparr>, s2))))
              (\<lambda>(df_bnd, s4).
                 case boundary_unit of
                   None \<Rightarrow> Inl (UnboundLocalError ''boundary_unit'')
                 | Some unit \<Rightarrow>
                     Inr (fold (\<lambda>(da_out_name, da_out). set_forcing da_out
                                   (''boundary2d_'' @ da_out_name))
                            (compute_2dboundary_values gdf_bnd df_bnd boundary_value
                               boundary_type unit)
                            s4)))"

section \<open>Cross-sections and structures\<close>

text \<open>
  \<open>_setup_crosssections\<close>. \<open>set_branch_crosssections\<close>, \<open>set_xyz_crosssections\<close>,
  \<open>set_point_crosssections\<close> and \<open>check_gpd_attributes\<close> are the functions of
  \<open>workflows\<close> of these names; \<open>get_geodataframe\<close> is the data catalogue, called with the
  source, the region and the buffer.
\<close>

definition setup_crosssections ::
  "(gdf \<Rightarrow> bool \<Rightarrow> gdf) \<Rightarrow> (gdf \<Rightarrow> gdf \<Rightarrow> gdf) \<Rightarrow> (gdf \<Rightarrow> gdf \<Rightarrow> real \<Rightarrow> gdf) \<Rightarrow>
   (gdf \<Rightarrow> string list \<Rightarrow> bool) \<Rightarrow> (string option \<Rightarrow> gdf option \<Rightarrow> nat \<Rightarrow> gdf) \<Rightarrow>
   real \<Rightarrow> gdf \<Rightarrow> gdf option \<Rightarrow> string option \<Rightarrow> string \<Rightarrow> bool \<Rightarrow>
   model \<Rightarrow> error + gdf option \<times> model" where
  "setup_crosssections set_branch_crosssections set_xyz_crosssections set_point_crosssections
       check_gpd_attributes get_geodataframe network_snap_offset
       brs region crosssections_fn crosssections_type midpoint s =
     (if crosssections_fn = None \<and> crosssections_type = ''branch''
      then Inr (Some (set_branch_crosssections brs midpoint),
                logmsg Info ''Preparing crossections from branch.'' [] s)
      else if crosssections_type = ''xyz''
      then (let gdf_cs = get_geodataframe crosssections_fn region 1000
            in if len gdf_cs = 0
               then Inr (None, logmsg Warning ''No 1D xyz crosssections found within domain'' [] s)
               else if \<not> check_gpd_attributes gdf_cs [''crsid'', ''order'', ''z'']
               then Inr (None, logmsg Error
                      ''Required attributes [crsid, order, z] in xyz crosssections do not exist''
                      [] s)
               else Inr (Some (set_xyz_crosssections brs (set_index ''crsid'' gdf_cs)),
                         logmsg Info ''Preparing 1D xyz crossections'' [] s))
      else if crosssections_type = ''point''
      then (let gdf_cs = get_geodataframe crosssections_fn region 100
            in if len gdf_cs = 0
               then Inr (None, logmsg Warning ''No 1D point crosssections found within domain''
                                 [] s)
               else if \<not> check_gpd_attributes gdf_cs [''crsid'', ''shape'', ''shift'']
               then Inr (None, logmsg Error
                      ''Required attributes [crsid, shape, shift] in point crosssections do not exist''
                      [] s)
               else Inr (Some (set_point_crosssections brs (set_index ''crsid'' gdf_cs)
                                 network_snap_offset),
                         logmsg Info ''Preparing 1D point crossections'' [] s))
      else Inl (NotImplementedError (''Method '' @ crosssections_type @ '' is not implemented.'')))"

text \<open>
  Step 4 of \<open>_setup_1dstructures\<close> (lines 1750 to 1771): the structures are snapped to
  the branches, those that did not snap are dropped and reported, the others get their
  branch and chainage. \<open>workflows.find_nearest_branch\<close> adds to every feature the columns
  \<open>branch_id\<close> and \<open>branch_offset\<close>, both missing where no branch lies within
  \<open>maxdist\<close>; what it finds for one feature is the parameter \<open>nearest_branch\<close>. The
  warning about the dropped structures goes to the logger of the module, the other one to
  the logger of the model; both are entries of the one log here.
\<close>

definition find_nearest_branch ::
  "(gdf \<Rightarrow> real \<Rightarrow> geom \<Rightarrow> (string \<times> real) option) \<Rightarrow> gdf \<Rightarrow> gdf \<Rightarrow> real \<Rightarrow> gdf" where
  "find_nearest_branch nearest_branch brs geometries maxdist =
     \<lparr>columns = add_columns (columns geometries) [''branch_id'', ''branch_offset''],
      rows = map (\<lambda>r. case nearest_branch brs maxdist (geometry r) of
                         None \<Rightarrow> r\<lparr>cells := AList.delete ''branch_id''
                                              (AList.delete ''branch_offset'' (cells r))\<rparr>
                       | Some (bid, off) \<Rightarrow>
                           r\<lparr>cells := AList.update ''branch_id'' (Str bid)
                                        (AList.update ''branch_offset'' (Num off) (cells r))\<rparr>)
                 (rows geometries)\<rparr>"

definition dropna :: "string \<Rightarrow> gdf \<Rightarrow> gdf" where
  \<comment> \<open>\<open>df.dropna(axis=0, subset=[c])\<close>\<close>
  "dropna c g = g\<lparr>rows := filter (\<lambda>r. cell r c \<noteq> None) (rows g)\<rparr>"

definition index_list :: "gdf \<Rightarrow> string list" where
  \<comment> \<open>\<open>df.index.to_list()\<close>\<close>
  "index_list g = map label (rows g)"

definition dropped_ids :: "string list \<Rightarrow> string list \<Rightarrow> string list" where
  \<comment> \<open>\<open>list(set(_old_ids) - set(_new_ids))\<close>, here in the order of first occurrence\<close>
  "dropped_ids old_ids new_ids = remdups (filter (\<lambda>i. i \<notin> set new_ids) old_ids)"

definition dropped_text :: string where
  "dropped_text = ''structure with id are dropped: unable to find closest branch. ''"

definition setup_1dstructures_snap ::
  "(gdf \<Rightarrow> real \<Rightarrow> geom \<Rightarrow> (string \<times> real) option) \<Rightarrow> gdf \<Rightarrow> gdf \<Rightarrow> real \<Rightarrow>
   model \<Rightarrow> error + gdf option \<times> model" where
  "setup_1dstructures_snap nearest_branch brs gdf_st snap_offset s =
     (let g1 = find_nearest_branch nearest_branch brs gdf_st snap_offset;
          old_ids = index_list g1;
          g2 = dropna ''branch_offset'' g1;
          new_ids = index_list g2;
          s1 = (if length old_ids \<noteq> length new_ids
                then logmsg Warning dropped_text (dropped_ids old_ids new_ids) s
                else s)
      in if length new_ids = 0
         then Inr (None, logmsg Warning
                     ''No 1D locations found within the proximity of the network'' [] s1)
         else bind_result (copy_column ''branch_id'' ''structure_branchid'' g2) (\<lambda>g3.
              bind_result (copy_column ''branch_offset'' ''structure_chainage'' g3) (\<lambda>g4.
              Inr (Some g4, s1))))"

definition logged_dropped :: "model \<Rightarrow> string list" where
  \<comment> \<open>the identifiers that the log reports as dropped\<close>
  "logged_dropped s =
     concat (map args_of (filter (\<lambda>e. lvl e = Warning \<and> text_of e = dropped_text) (logger s)))"

definition returned_rows :: "gdf option \<Rightarrow> row list" where
  \<comment> \<open>the features of the returned frame; \<open>None\<close> is returned when none is left\<close>
  "returned_rows res = (case res of None \<Rightarrow> [] | Some g \<Rightarrow> rows g)"

section \<open>Concrete model states\<close>

text \<open>The states and frames at which the theorems below are instantiated.\<close>

definition fresh :: model where
  \<comment> \<open>a model in write mode on which no setup method has run\<close>
  "fresh = \<lparr>logger = [], read_mode = False, branches_field = None, geoms = [],
            mesh_field = None, forcing = []\<rparr>"

definition river_row :: row where
  "river_row = \<lparr>label = ''river_1'', geometry = LineString [(0, 0), (1, 0)],
                 cells = [(''branchtype'', Str ''river''), (''branchid'', Str ''river_1'')]\<rparr>"

definition pipe_row :: row where
  "pipe_row = \<lparr>label = ''pipe_2'', geometry = LineString [(1, 0), (2, 0)],
                cells = [(''branchtype'', Str ''pipe''), (''branchid'', Str ''pipe_2'')]\<rparr>"

definition two_branches_gdf :: gdf where
  "two_branches_gdf =
     \<lparr>columns = [''geometry'', ''branchtype'', ''branchid''], rows = [river_row, pipe_row]\<rparr>"

definition two_branches :: model where
  "two_branches = fresh\<lparr>branches_field := Some two_branches_gdf\<rparr>"

definition untyped_gdf :: gdf where
  \<comment> \<open>a frame of one line without the column \<open>branchtype\<close>\<close>
  "untyped_gdf =
     \<lparr>columns = [''geometry''],
      rows = [\<lparr>label = ''0'', geometry = LineString [(0, 0), (5, 5)], cells = []\<rparr>]\<rparr>"

definition one_branch :: model where
  \<comment> \<open>a model with one branch, whose identifier the user supplied\<close>
  "one_branch = fresh\<lparr>branches_field := Some
     \<lparr>columns = [''geometry'', ''branchtype'', ''branchid''],
      rows = [\<lparr>label = ''river_2'', geometry = LineString [(0, 0), (1, 0)],
               cells = [(''branchtype'', Str ''river''), (''branchid'', Str ''river_2'')]\<rparr>]\<rparr>\<rparr>"

text \<open>Stand-ins for the collaborators of \<open>_setup_crosssections\<close>.\<close>

definition no_branch_crosssections :: "gdf \<Rightarrow> bool \<Rightarrow> gdf" where
  "no_branch_crosssections b midpoint = empty_gdf"

definition no_xyz_crosssections :: "gdf \<Rightarrow> gdf \<Rightarrow> gdf" where
  "no_xyz_crosssections b g = g"

definition no_point_crosssections :: "gdf \<Rightarrow> gdf \<Rightarrow> real \<Rightarrow> gdf" where
  "no_point_crosssections b g maxdist = g"

definition has_columns :: "gdf \<Rightarrow> string list \<Rightarrow> bool" where
  "has_columns g required = list_all (\<lambda>c. c \<in> set (columns g)) required"

definition empty_catalog :: "string option \<Rightarrow> gdf option \<Rightarrow> nat \<Rightarrow> gdf" where
  "empty_catalog fn region buffer = empty_gdf"

text \<open>
  Two structures that carry the same identifier; only the one at the origin lies within
  reach of a branch.
\<close>

definition near_origin :: "gdf \<Rightarrow> real \<Rightarrow> geom \<Rightarrow> (string \<times> real) option" where
  "near_origin b maxdist g = (if g = Point 0 0 then Some (''river_1'', 0) else None)"

definition dup_structures :: gdf where
  "dup_structures =
     \<lparr>columns = [''geometry'', ''structure_id''],
      rows = [\<lparr>label = ''a'', geometry = Point 0 0, cells = [(''structure_id'', Str ''a'')]\<rparr>,
              \<lparr>label = ''a'', geometry = Point 100 100,
               cells = [(''structure_id'', Str ''a'')]\<rparr>]\<rparr>"

definition two_structures :: gdf where
  "two_structures =
     \<lparr>columns = [''geometry'', ''structure_id''],
      rows = [\<lparr>label = ''a'', geometry = Point 0 0, cells = [(''structure_id'', Str ''a'')]\<rparr>,
              \<lparr>label = ''b'', geometry = Point 100 100,
               cells = [(''structure_id'', Str ''b'')]\<rparr>]\<rparr>"

text \<open>A mesh with one 1D2D link, and a new set of two links.\<close>

definition old_links :: dataset where
  "old_links =
     \<lparr>data_vars =
        [(''link1d2d'', \<lparr>vdims = [''nLink1D2D_edge'', ''Two''], vdata = [[Num 0, Num 0]]\<rparr>),
         (''link1d2d_ids'', \<lparr>vdims = [''nLink1D2D_edge''], vdata = [[Str ''L0'']]\<rparr>),
         (''link1d2d_long_names'', \<lparr>vdims = [''nLink1D2D_edge''], vdata = [[Str ''L0'']]\<rparr>),
         (''link1d2d_contact_type'', \<lparr>vdims = [''nLink1D2D_edge''], vdata = [[Num 3]]\<rparr>)],
      dims = [(''nLink1D2D_edge'', 1), (''Two'', 2)]\<rparr>"

definition new_links :: dataset where
  "new_links =
     \<lparr>data_vars =
        [(''link1d2d'',
          \<lparr>vdims = [''nLink1D2D_edge'', ''Two''], vdata = [[Num 1, Num 4], [Num 2, Num 5]]\<rparr>),
         (''link1d2d_ids'',
          \<lparr>vdims = [''nLink1D2D_edge''], vdata = [[Str ''N1''], [Str ''N2'']]\<rparr>),
         (''link1d2d_long_names'',
          \<lparr>vdims = [''nLink1D2D_edge''], vdata = [[Str ''N1''], [Str ''N2'']]\<rparr>),
         (''link1d2d_contact_type'',
          \<lparr>vdims = [''nLink1D2D_edge''], vdata = [[Num 3], [Num 3]]\<rparr>)],
      dims = [(''nLink1D2D_edge'', 2), (''Two'', 2)]\<rparr>"

definition three_grids :: "(string \<times> grid) list" where
  "three_grids = [(''network1d'', \<lparr>area = []\<rparr>), (''mesh1d'', \<lparr>area = []\<rparr>),
                  (''mesh2d'', \<lparr>area = [100, 100]\<rparr>)]"

definition linked_ugrid :: ugrid where
  "linked_ugrid = \<lparr>grids = three_grids, ds = old_links\<rparr>"

definition linked_model :: model where
  "linked_model = fresh\<lparr>mesh_field := Some linked_ugrid\<rparr>"

definition relinked_model :: model where
  "relinked_model =
     fresh\<lparr>logger := [log_record Info ''Overwriting existing link1d2d in self.mesh.'' []],
           mesh_field := Some \<lparr>grids = three_grids, ds = new_links\<rparr>\<rparr>"

text \<open>
  Stand-ins for the inherited \<open>set_mesh\<close> (the grids of the data replace those of the
  same name, the variables of the mesh stay) and for the boundary helpers.
\<close>

definition replace_grid ::
  "ugrid \<Rightarrow> string option \<Rightarrow> string option \<Rightarrow> bool \<Rightarrow> model \<Rightarrow> error + model" where
  "replace_grid data name grid_name overwrite_grid s =
     (case mesh_field s of
        None \<Rightarrow> Inr (s\<lparr>mesh_field := Some data\<rparr>)
      | Some m \<Rightarrow>
          Inr (s\<lparr>mesh_field := Some
                 \<lparr>grids = filter (\<lambda>(k, g). k \<notin> set (map fst (grids data))) (grids m)
                           @ grids data,
                  ds = ds m\<rparr>\<rparr>))"

definition no_boundaries :: "gdf \<Rightarrow> gdf \<Rightarrow> gdf" where
  "no_boundaries b nodes = empty_gdf"

definition no_nodes :: "ugrid \<Rightarrow> gdf" where
  "no_nodes u = empty_gdf"

definition fine_mesh2d :: ugrid where
  "fine_mesh2d = \<lparr>grids = [(''mesh2d'', \<lparr>area = [25, 25, 25, 25]\<rparr>)],
                  ds = \<lparr>data_vars = [], dims = []\<rparr>\<rparr>"

definition regridded_ugrid :: ugrid where
  "regridded_ugrid =
     \<lparr>grids = [(''network1d'', \<lparr>area = []\<rparr>), (''mesh1d'', \<lparr>area = []\<rparr>),
               (''mesh2d'', \<lparr>area = [25, 25, 25, 25]\<rparr>)],
      ds = old_links\<rparr>"

definition regridded_model :: model where
  "regridded_model = fresh\<lparr>mesh_field := Some regridded_ugrid\<rparr>"

text \<open>
  A model whose mesh has the grid \<open>mesh2d\<close> only, and stand-ins for the link generators
  of \<open>workflows\<close>: the embedded generator returns the two links above.
\<close>

definition mesh2d_only :: model where
  "mesh2d_only =
     fresh\<lparr>mesh_field := Some \<lparr>grids = [(''mesh2d'', \<lparr>area = [100, 100]\<rparr>)],
                                  ds = \<lparr>data_vars = [], dims = []\<rparr>\<rparr>\<rparr>"

definition no_links_1d_to_2d ::
  "ugrid option \<Rightarrow> string list option \<Rightarrow> geom list option \<Rightarrow> real \<Rightarrow> error + dataset" where
  "no_links_1d_to_2d m ids within_geoms max_length = Inr \<lparr>data_vars = [], dims = []\<rparr>"

definition two_links_embedded ::
  "ugrid option \<Rightarrow> string list option \<Rightarrow> geom list option \<Rightarrow> error + dataset" where
  "two_links_embedded m ids within_geoms = Inr new_links"

definition no_links_lateral ::
  "ugrid option \<Rightarrow> string list option \<Rightarrow> geom list option \<Rightarrow> real \<Rightarrow> real \<Rightarrow> error + dataset" where
  "no_links_lateral m ids within_geoms max_length dist_factor =
     Inr \<lparr>data_vars = [], dims = []\<rparr>"

definition mesh2d_only_linked :: model where
  "mesh2d_only_linked =
     fresh\<lparr>logger :=
             [log_record Error
                ''cannot setup link1d2d: either mesh1d or mesh2d or both do not exist'' [],
              log_record Warning
                ''adding 1d2d links for all branches at non boundary locations.'' [],
              log_record Info ''setting up 2d_to_1d embedded links.'' []],
           mesh_field := Some \<lparr>grids = [(''mesh2d'', \<lparr>area = [100, 100]\<rparr>)],
                                 ds = new_links\<rparr>\<rparr>"

text \<open>
  Stand-ins for the collaborators of the boundary methods. The forcing source covers the
  first day only of a model window of two days.
\<close>

definition keep_boundaries :: "gdf \<Rightarrow> string \<Rightarrow> string \<Rightarrow> string \<Rightarrow> gdf" where
  "keep_boundaries g branch_type boundary_type boundary_locs = g"

definition one_day_forcing :: "string \<Rightarrow> gdf \<Rightarrow> real \<Rightarrow> string \<Rightarrow> int \<times> int \<Rightarrow> dataarray" where
  "one_day_forcing fn g snap_offset variable time_tuple =
     \<lparr>da_name = variable, da_time = [0, 86400], da_values = [(''1'', [1, 2])]\<rparr>"

definition values_or_constant ::
  "gdf \<Rightarrow> dataarray option \<Rightarrow> real \<Rightarrow> string \<Rightarrow> string \<Rightarrow> real \<Rightarrow> dataarray" where
  "values_or_constant g da_bnd boundary_value boundary_type boundary_unit snap_offset =
     (case da_bnd of
        Some d \<Rightarrow> d\<lparr>da_name := boundary_type @ ''bnd''\<rparr>
      | None \<Rightarrow> \<lparr>da_name = boundary_type @ ''bnd'', da_time = [], da_values = []\<rparr>)"

definition no_lines :: "string \<Rightarrow> gdf" where
  "no_lines fn = empty_gdf"

definition one_day_table :: "string \<Rightarrow> int \<times> int \<Rightarrow> dataframe" where
  "one_day_table fn time_tuple =
     \<lparr>index_is_datetime = True, index = [0, 86400], series = [(''1'', [Some 1, Some 2])]\<rparr>"

definition plain_str :: "val \<Rightarrow> string" where
  "plain_str v = (case v of Str t \<Rightarrow> t | _ \<Rightarrow> ''nan'')"

definition no_2dboundary_values ::
  "gdf option \<Rightarrow> dataframe \<Rightarrow> real \<Rightarrow> string \<Rightarrow> string \<Rightarrow> (string \<times> dataarray) list" where
  "no_2dboundary_values g df boundary_value boundary_type boundary_unit = []"

text \<open>
  Stand-ins for the collaborators of \<open>setup_manholes\<close>: one manhole is generated at the
  origin, below a pipe whose invert level is \<open>-1\<close>; the user's dataset has a manhole at
  the same place with a bed level of \<open>7\<close>.
\<close>

definition point_distance :: "geom \<Rightarrow> geom \<Rightarrow> real" where
  \<comment> \<open>the distance of two points; other geometries do not occur among manholes and nodes\<close>
  "point_distance g h =
     (case (g, h) of
        (Point x1 y1, Point x2 y2) \<Rightarrow> sqrt ((x1 - x2)\<^sup>2 + (y1 - y2)\<^sup>2)
      | _ \<Rightarrow> 0)"

definition one_manhole :: "gdf \<Rightarrow> real \<Rightarrow> gdf \<times> gdf" where
  "one_manhole b bedlevel_shift =
     (\<lparr>columns = [''geometry'', ''manholeid'', ''bedlevel''],
       rows = [\<lparr>label = ''0'', geometry = Point 0 0,
                cells = [(''manholeid'', Str ''manhole_1_generated''),
                         (''bedlevel'', Num (- 1 + bedlevel_shift))]\<rparr>]\<rparr>, b)"

definition standard_manhole :: "gdf \<Rightarrow> gdf" where
  "standard_manhole g =
     \<lparr>columns = columns g @ [''area'', ''streetlevel'', ''streetstoragearea'', ''storagetype''],
      rows = map (\<lambda>r. r\<lparr>cells := cells r @ [(''area'', Num 1), (''streetlevel'', Num 0),
                           (''streetstoragearea'', Num 500),
                           (''storagetype'', Str ''reservoir'')]\<rparr>) (rows g)\<rparr>"

definition one_node :: "ugrid \<Rightarrow> gdf" where
  "one_node u =
     \<lparr>columns = [''geometry'', ''nodeid''],
      rows = [\<lparr>label = ''0'', geometry = Point 0 0, cells = [(''nodeid'', Str ''node_1'')]\<rparr>]\<rparr>"

definition user_manholes :: gdf where
  "user_manholes =
     \<lparr>columns = [''geometry'', ''bedlevel''],
      rows = [\<lparr>label = ''0'', geometry = Point 0 0, cells = [(''bedlevel'', Num 7)]\<rparr>]\<rparr>"

definition piped_model :: model where
  "piped_model = fresh\<lparr>branches_field := Some two_branches_gdf,
                        mesh_field := Some linked_ugrid\<rparr>"

section \<open>Auxiliary facts\<close>

lemma logmsg_fields [simp]:
  "branches_field (logmsg l t a s) = branches_field s"
  "read_mode (logmsg l t a s) = read_mode s"
  "geoms (logmsg l t a s) = geoms s"
  "mesh_field (logmsg l t a s) = mesh_field s"
  "forcing (logmsg l t a s) = forcing s"
  "logger (logmsg l t a s) = logger s @ [log_record l t a]"
  by (simp_all add: logmsg_def)

lemma set_geoms_fields [simp]:
  "branches_field (set_geoms g n s) = branches_field s"
  "read_mode (set_geoms g n s) = read_mode s"
  "mesh_field (set_geoms g n s) = mesh_field s"
  "forcing (set_geoms g n s) = forcing s"
  "map_of (geoms (set_geoms g n s)) = (map_of (geoms s))(n \<mapsto> g)"
  by (auto simp: set_geoms_def Let_def update_conv')

lemma set_geoms_logger: "set (logger s) \<subseteq> set (logger (set_geoms g n s))"
  by (auto simp: set_geoms_def Let_def)

lemma branches_Some [simp]:
  "branches_field s = Some b \<Longrightarrow> branches read_mesh s = (b, s)"
  by (simp add: branches_def)

lemma isin_open:
  "isin [''river'', ''channel''] =
     (\<lambda>r. cell r ''branchtype'' = Some (Str ''river'')
           \<or> cell r ''branchtype'' = Some (Str ''channel''))"
  by (rule ext) (auto simp: isin_def split: option.splits val.splits)

lemma isin_closed:
  "isin [''pipe'', ''tunnel''] =
     (\<lambda>r. cell r ''branchtype'' = Some (Str ''pipe'')
           \<or> cell r ''branchtype'' = Some (Str ''tunnel''))"
  by (rule ext) (auto simp: isin_def split: option.splits val.splits)

lemma set_branches_component_ok:
  assumes "branches_field s = Some b" "''branchtype'' \<in> set (columns b)"
  shows "\<exists>g s'. set_branches_component read_mesh name s = Inr (g, s')
           \<and> branches_field s' = Some b \<and> set (logger s) \<subseteq> set (logger s')"
  using assms set_geoms_logger
  by (auto simp: set_branches_component_def select_branchtype_def)

section \<open>The open and the closed system\<close>

text \<open>
  Claim C9. In every state whose branches carry the column \<open>branchtype\<close> (or that has
  no branches at all), \<open>opensystem\<close> returns exactly the branches of type river or
  channel and \<open>closedsystem\<close> exactly those of type pipe or tunnel, in the order of the
  branches; no branch is in both; without branches both are the empty frame.
\<close>

theorem opensystem_closedsystem_partition:
  assumes "fst (branches read_mesh s) = b"
      and "''branchtype'' \<in> set (columns b) \<or> rows b = []"
  shows "\<exists>go gc. fst (opensystem read_mesh s) = Inr go \<and> fst (closedsystem read_mesh s) = Inr gc
           \<and> rows go = filter (\<lambda>r. cell r ''branchtype'' = Some (Str ''river'')
                                   \<or> cell r ''branchtype'' = Some (Str ''channel'')) (rows b)
           \<and> rows gc = filter (\<lambda>r. cell r ''branchtype'' = Some (Str ''pipe'')
                                   \<or> cell r ''branchtype'' = Some (Str ''tunnel'')) (rows b)
           \<and> set (rows go) \<inter> set (rows gc) = {}
           \<and> (rows b = [] \<longrightarrow> go = empty_gdf \<and> gc = empty_gdf)"
proof (cases "rows b = []")
  case True
  then show ?thesis using assms(1)
    by (auto simp: opensystem_def closedsystem_def len_def empty_gdf_def split: prod.splits)
next
  case False
  with assms(2) have col: "''branchtype'' \<in> set (columns b)" by simp
  from False assms(1) col show ?thesis
    by (auto simp: opensystem_def closedsystem_def len_def select_branchtype_def
          isin_open isin_closed split: prod.splits)
qed

theorem opensystem_closedsystem_partition_witness:
  "fst (branches id two_branches) = two_branches_gdf
   \<and> ''branchtype'' \<in> set (columns two_branches_gdf)
   \<and> rows (projr (fst (opensystem id two_branches))) = [river_row]
   \<and> rows (projr (fst (closedsystem id two_branches))) = [pipe_row]"
  using opensystem_closedsystem_partition [of id two_branches two_branches_gdf]
  by (auto simp: two_branches_def two_branches_gdf_def fresh_def river_row_def pipe_row_def
        cell_def)

section \<open>Setting the branches\<close>

text \<open>
  Claim C10, as amended. When the new frame has no column \<open>branchtype\<close> and the model
  already holds branches that have one, \<open>set_branches\<close> returns normally, logs the error,
  leaves the branches of the model as they were and stores the new frame under
  \<open>geoms["branches"]\<close>: the two then differ.
\<close>

theorem set_branches_without_branchtype:
  assumes "''branchtype'' \<notin> set (columns g)"
      and "branches_field s = Some b"
      and "''branchtype'' \<in> set (columns b)"
  shows "\<exists>s'. set_branches read_mesh g s = Inr s'
           \<and> branches_field s' = Some b
           \<and> map_of (geoms s') ''branches'' = Some g
           \<and> g \<noteq> b
           \<and> log_record Error
                '''branchtype' column absent from the new branches, could not update.'' []
                \<in> set (logger s')"
proof -
  let ?e = "log_record Error
        '''branchtype' column absent from the new branches, could not update.'' []"
  let ?s1 = "logmsg Error
        '''branchtype' column absent from the new branches, could not update.'' [] s"
  have b1: "branches_field ?s1 = Some b" using assms(2) by simp
  obtain g2 s2 where c2: "set_branches_component read_mesh ''river'' ?s1 = Inr (g2, s2)"
    and b2: "branches_field s2 = Some b" and l2: "set (logger ?s1) \<subseteq> set (logger s2)"
    using set_branches_component_ok [OF b1 assms(3)] by blast
  obtain g3 s3 where c3: "set_branches_component read_mesh ''channel'' s2 = Inr (g3, s3)"
    and b3: "branches_field s3 = Some b" and l3: "set (logger s2) \<subseteq> set (logger s3)"
    using set_branches_component_ok [OF b2 assms(3)] by blast
  obtain g4 s4 where c4: "set_branches_component read_mesh ''pipe'' s3 = Inr (g4, s4)"
    and b4: "branches_field s4 = Some b" and l4: "set (logger s3) \<subseteq> set (logger s4)"
    using set_branches_component_ok [OF b3 assms(3)] by blast
  let ?s5 = "logmsg Debug ''Adding branches vector to geoms.'' [] s4"
  let ?s' = "logmsg Debug ''Updating branches in network.'' [] (set_geoms g ''branches'' ?s5)"
  have r: "set_branches read_mesh g s = Inr ?s'"
    using assms(1) c2 c3 c4 by (simp add: set_branches_def)
  have e: "?e \<in> set (logger s4)"
    using l2 l3 l4 by auto
  have "set (logger ?s5) \<subseteq> set (logger (set_geoms g ''branches'' ?s5))"
    by (rule set_geoms_logger)
  with e have e': "?e \<in> set (logger ?s')" by auto
  have ne: "g \<noteq> b" using assms(1,3) by auto
  show ?thesis using r b4 e' ne by simp
qed

theorem set_branches_without_branchtype_witness:
  "''branchtype'' \<notin> set (columns untyped_gdf)
   \<and> branches_field two_branches = Some two_branches_gdf
   \<and> ''branchtype'' \<in> set (columns two_branches_gdf)
   \<and> (\<exists>s'. set_branches id untyped_gdf two_branches = Inr s'
          \<and> branches_field s' = Some two_branches_gdf
          \<and> map_of (geoms s') ''branches'' = Some untyped_gdf)"
  using set_branches_without_branchtype [of untyped_gdf two_branches two_branches_gdf id]
  by (auto simp: untyped_gdf_def two_branches_def two_branches_gdf_def)

text \<open>
  The claim as stated fails on a model without branches: \<open>set_branches_component\<close> reads
  the column \<open>branchtype\<close> of the empty frame, the KeyError ends the call and
  \<open>geoms["branches"]\<close> is not written.
\<close>

theorem set_branches_fresh_counterexample:
  "set_branches id untyped_gdf fresh = Inl (KeyError ''branchtype'')"
  by (simp add: set_branches_def set_branches_component_def branches_def fresh_def logmsg_def
      select_branchtype_def empty_gdf_def untyped_gdf_def)

section \<open>Generated branch identifiers\<close>

lemma digit_char_inj:
  assumes "a < 10" "b < 10" "digit_char a = digit_char b"
  shows "a = b"
proof -
  from assms(3) have "(of_char (char_of (48 + a)) :: nat) = of_char (char_of (48 + b))"
    by (simp add: digit_char_def)
  then have "(48 + a) mod 256 = (48 + b) mod 256" by simp
  with assms(1,2) show ?thesis by simp
qed

lemma str_of_nat_length: "10 \<le> n \<Longrightarrow> 2 \<le> length (str_of_nat n)"
  by (subst str_of_nat.simps, subst str_of_nat.simps) auto

lemma str_of_nat_small: "n < 10 \<Longrightarrow> str_of_nat n = [digit_char n]"
  by (simp add: str_of_nat.simps)

lemma str_of_nat_big:
  "10 \<le> n \<Longrightarrow> str_of_nat n = str_of_nat (n div 10) @ [digit_char (n mod 10)]"
  by (subst str_of_nat.simps) simp

lemma str_of_nat_inj: "str_of_nat n = str_of_nat m \<Longrightarrow> n = m"
proof (induction n arbitrary: m rule: str_of_nat.induct)
  case (1 n)
  show ?case
  proof (cases "n < 10")
    case True
    show ?thesis
    proof (cases "m < 10")
      case True
      with \<open>n < 10\<close> "1.prems" show ?thesis
        by (auto simp: str_of_nat_small dest: digit_char_inj)
    next
      case False
      then have "2 \<le> length (str_of_nat m)" by (simp add: str_of_nat_length)
      moreover from \<open>n < 10\<close> have "length (str_of_nat n) = 1"
        by (simp add: str_of_nat_small)
      with "1.prems" have "length (str_of_nat m) = 1" by simp
      ultimately show ?thesis by simp
    qed
  next
    case False
    then have n: "10 \<le> n" by simp
    show ?thesis
    proof (cases "m < 10")
      case True
      from n have "2 \<le> length (str_of_nat n)" by (simp add: str_of_nat_length)
      moreover from True have "length (str_of_nat m) = 1"
        by (simp add: str_of_nat_small)
      with "1.prems" have "length (str_of_nat n) = 1" by simp
      ultimately show ?thesis by simp
    next
      case False
      then have m: "10 \<le> m" by simp
      from "1.prems" n m
      have eq: "str_of_nat (n div 10) = str_of_nat (m div 10)"
        and d: "digit_char (n mod 10) = digit_char (m mod 10)"
        by (simp_all add: str_of_nat_big)
      from "1.IH" [OF \<open>\<not> n < 10\<close> eq] have q: "n div 10 = m div 10" .
      have r: "n mod 10 = m mod 10" by (rule digit_char_inj [OF _ _ d]) simp_all
      from q r show ?thesis by (metis div_mult_mod_eq)
    qed
  qed
qed

lemma branchid_inj: "inj (\<lambda>i. br_type @ ''_'' @ str_of_nat i)"
  by (rule injI) (auto dest: str_of_nat_inj)

lemma new_branchids_distinct: "distinct (new_branchids br_type n k)"
  unfolding new_branchids_def
  by (simp add: distinct_map inj_on_def str_of_nat_inj)

lemma new_branchids_length [simp]: "length (new_branchids br_type n k) = k"
  by (simp add: new_branchids_def)

lemma set_column_rows_length:
  "length data = len g \<Longrightarrow> len (set_column c data g) = len g"
  by (simp add: set_column_def len_def)

lemma set_column_columns:
  "c' \<in> set (columns (set_column c data g)) \<longleftrightarrow> c' = c \<or> c' \<in> set (columns g)"
  by (auto simp: set_column_def)

lemma index_after_set_column:
  assumes "length ids = len g"
  shows "index_list (set_index c (set_column c (map Str ids) g)) = ids"
proof -
  have "map (\<lambda>x. label_of (cell (case x of (r, v) \<Rightarrow> r\<lparr>cells := AList.update c v (cells r)\<rparr>) c))
          (zip (rows g) (map Str ids)) = map (\<lambda>x. label_of (Some (snd x))) (zip (rows g) (map Str ids))"
    by (rule map_cong) (auto simp: cell_def update_conv')
  also have "\<dots> = map (\<lambda>v. label_of (Some v)) (map snd (zip (rows g) (map Str ids)))"
    by simp
  also have "\<dots> = map (\<lambda>v. label_of (Some v)) (map Str ids)"
    using assms by (simp add: len_def del: map_map)
  also have "\<dots> = ids" by (simp add: label_of_def comp_def)
  finally show ?thesis
    by (simp add: index_list_def set_index_def set_column_def comp_def)
qed

lemma str_of_nat_digits:
  "str_of_nat (Suc 0) = ''1''" "str_of_nat (Suc (Suc 0)) = ''2''"
  "str_of_nat (Suc (Suc (Suc 0))) = ''3''"
  "str_of_nat 1 = ''1''" "str_of_nat 2 = ''2''" "str_of_nat 3 = ''3''"
  by code_simp+

lemma upt_2_3: "[2 ..< 3] = [2::nat]" "[3 ..< 4] = [3::nat]"
  by (simp_all add: upt_rec)




section \<open>The type of the cross-sections\<close>

text \<open>
  Claim C6, as amended. \<open>_setup_crosssections\<close> raises if and only if the type is none
  of \<open>xyz\<close> and \<open>point\<close> and is not \<open>branch\<close> with no \<open>crosssections_fn\<close> given; the
  error is then the NotImplementedError that names the type. In particular no call with
  the type \<open>xyz\<close> or \<open>point\<close>, and no call with the type \<open>branch\<close> and no source,
  raises.
\<close>

theorem setup_crosssections_raises_iff:
  "setup_crosssections set_branch_crosssections set_xyz_crosssections set_point_crosssections
       check_gpd_attributes get_geodataframe network_snap_offset
       brs region crosssections_fn crosssections_type midpoint s = Inl e
   \<longleftrightarrow> e = NotImplementedError (''Method '' @ crosssections_type @ '' is not implemented.'')
       \<and> crosssections_type \<noteq> ''xyz'' \<and> crosssections_type \<noteq> ''point''
       \<and> \<not> (crosssections_type = ''branch'' \<and> crosssections_fn = None)"
  by (auto simp: setup_crosssections_def Let_def)

theorem setup_crosssections_raises_iff_witness:
  "setup_crosssections no_branch_crosssections no_xyz_crosssections no_point_crosssections
       has_columns empty_catalog 1 two_branches_gdf None None ''culvert'' True fresh
     = Inl (NotImplementedError ''Method culvert is not implemented.'')
   \<and> setup_crosssections no_branch_crosssections no_xyz_crosssections no_point_crosssections
       has_columns empty_catalog 1 two_branches_gdf None None ''branch'' True fresh
     \<noteq> Inl (NotImplementedError ''Method branch is not implemented.'')"
  using setup_crosssections_raises_iff [of no_branch_crosssections no_xyz_crosssections
          no_point_crosssections has_columns empty_catalog 1 two_branches_gdf None None
          "''culvert''" True fresh "NotImplementedError ''Method culvert is not implemented.''"]
        setup_crosssections_raises_iff [of no_branch_crosssections no_xyz_crosssections
          no_point_crosssections has_columns empty_catalog 1 two_branches_gdf None None
          "''branch''" True fresh "NotImplementedError ''Method branch is not implemented.''"]
  by simp

text \<open>
  The claim as stated fails for the valid type \<open>branch\<close> when a source is given: the
  first branch of the conditional also requires \<open>crosssections_fn\<close> to be \<open>None\<close>.
\<close>

theorem setup_crosssections_branch_counterexample:
  "setup_crosssections no_branch_crosssections no_xyz_crosssections no_point_crosssections
       has_columns empty_catalog 1 two_branches_gdf None (Some ''crosssections.shp'')
       ''branch'' True fresh
     = Inl (NotImplementedError ''Method branch is not implemented.'')"
  by (simp add: setup_crosssections_def)

section \<open>Snapping the structures to the branches\<close>

lemma add_columns_mem: "c \<in> set (add_columns cols new) \<longleftrightarrow> c \<in> set cols \<or> c \<in> set new"
  by (auto simp: add_columns_def)

lemma put_cell_lookup: "map_of (put_cell c v cs) = (map_of cs)(c := v)"
  by (cases v) (auto simp: put_cell_def update_conv' delete_conv')

lemma dropped_ids_distinct:
  assumes "distinct (map label rs)"
  shows "dropped_ids (map label rs) (map label (filter P rs)) = map label (filter (\<lambda>r. \<not> P r) rs)"
proof -
  have "filter (\<lambda>i. i \<notin> label ` {x \<in> set rs. P x}) (map label rs)
        = map label (filter (\<lambda>r. \<not> P r) rs)"
    using assms
  proof (induction rs)
    case Nil then show ?case by simp
  next
    case (Cons r rs)
    have a: "(\<lambda>i. i \<notin> label ` {x \<in> set (r # rs). P x}) x = (\<lambda>i. i \<notin> label ` {x \<in> set rs. P x}) x"
      if "x \<in> set (map label rs)" for x
      using that Cons.prems by (auto simp: image_iff)
    have "filter (\<lambda>i. i \<notin> label ` {x \<in> set (r # rs). P x}) (map label rs)
          = filter (\<lambda>i. i \<notin> label ` {x \<in> set rs. P x}) (map label rs)"
      by (rule filter_cong [OF refl]) (use a in blast)
    moreover have "label r \<notin> label ` {x \<in> set (r # rs). P x} \<longleftrightarrow> \<not> P r"
      using Cons.prems by auto
    ultimately show ?case using Cons by simp
  qed
  moreover have "distinct (map label (filter (\<lambda>r. \<not> P r) rs))"
    using assms by (simp add: distinct_map_filter)
  ultimately show ?thesis by (simp add: dropped_ids_def)
qed


lemma logged_dropped_logmsg:
  "logged_dropped (logmsg l t a s)
     = logged_dropped s @ (if l = Warning \<and> t = dropped_text then a else [])"
  by (simp add: logged_dropped_def logmsg_def log_record_def)

lemma filter_all_length:
  "length (filter P xs) = length xs \<Longrightarrow> filter (\<lambda>x. \<not> P x) xs = []"
  using sum_length_filter_compl [of P xs] by simp





section \<open>Replacing the 1D2D links\<close>

lemma map_of_filter_key:
  "map_of (filter (\<lambda>(k, v). P k) xs) n = (if P n then map_of xs n else None)"
  by (induction xs) auto

lemma bind_result_Inr:
  "bind_result r f = Inr y \<longleftrightarrow> (\<exists>x. r = Inr x \<and> f x = Inr y)"
  by (cases r) (auto simp: bind_result_def)

lemma drop_vars_Inr:
  "drop_vars names d = Inr d1 \<Longrightarrow>
     data_vars d1 = filter (\<lambda>(k, v). k \<notin> set names) (data_vars d) \<and> dims d1 = dims d"
  by (auto simp: drop_vars_def split: if_splits)

lemma drop_dims_Inr:
  "drop_dims names d = Inr d2 \<Longrightarrow>
     data_vars d2 = filter (\<lambda>(k, v). list_all (\<lambda>x. x \<notin> set names) (vdims v)) (data_vars d)
     \<and> dims d2 = filter (\<lambda>(k, n). k \<notin> set names) (dims d)"
  by (auto simp: drop_dims_def split: if_splits)

lemma merge_Inr:
  "merge d other = Inr d3 \<Longrightarrow>
     data_vars d3 = data_vars d
        @ filter (\<lambda>(k, v). k \<notin> set (map fst (data_vars d))) (data_vars other)
     \<and> dims d3 = dims d @ filter (\<lambda>(k, n). k \<notin> set (map fst (dims d))) (dims other)"
  by (auto simp: merge_def split: if_splits)

lemma map_of_merged:
  assumes "map_of xs n = None"
  shows "map_of (xs @ filter (\<lambda>(k, v). k \<notin> set (map fst xs)) ys) n = map_of ys n"
proof -
  from assms have "n \<notin> set (map fst xs)" by (simp add: map_of_eq_None_iff)
  then show ?thesis using assms
    by (simp add: map_add_def map_of_filter_key split: option.splits)
qed




section \<open>Updating the mesh\<close>

lemma mesh_write_mode [simp]: "\<not> read_mode s \<Longrightarrow> mesh read_mesh s = (mesh_field s, s)"
  by (simp add: mesh_def)

lemma branches_write_mode:
  "\<not> read_mode s \<Longrightarrow> mesh_field (snd (branches read_mesh s)) = mesh_field s
     \<and> read_mode (snd (branches read_mesh s)) = read_mode s
     \<and> logger (snd (branches read_mesh s)) = logger s"
  by (simp add: branches_def split: option.splits)




section \<open>Generating links without both meshes\<close>

text \<open>
  When a mesh is missing, the method logs the error and then does what it does otherwise:
  for embedded links from 2D to 1D it calls the generator and stores what it returns.
\<close>

lemma setup_link1d2d_calls_generator:
  assumes "\<not> read_mode s" and "mesh_field s = Some m"
      and "''mesh1d'' \<notin> set (map fst (grids m)) \<or> ''mesh2d'' \<notin> set (map fst (grids m))"
  shows "setup_link1d2d read_mesh links_1d_to_2d links_2d_to_1d_embedded links_2d_to_1d_lateral
           ''2d_to_1d'' ''embedded'' None None max_length dist_factor s
         = bind_result (links_2d_to_1d_embedded (Some m) None None)
             (\<lambda>l. case map_of (data_vars l) ''link1d2d'' of
                     None \<Rightarrow> Inl (KeyError ''link1d2d'')
                   | Some v \<Rightarrow>
                       if length (vdata v) = 0
                       then Inr (logmsg Warning ''No 1d2d links were generated.'' []
                              (logmsg Info ''setting up 2d_to_1d embedded links.'' []
                                (logmsg Warning
                                   ''adding 1d2d links for all branches at non boundary locations.'' []
                                  (logmsg Error
                                     ''cannot setup link1d2d: either mesh1d or mesh2d or both do not exist''
                                     [] s))))
                       else set_link1d2d read_mesh l
                              (logmsg Info ''setting up 2d_to_1d embedded links.'' []
                                (logmsg Warning
                                   ''adding 1d2d links for all branches at non boundary locations.'' []
                                  (logmsg Error
                                     ''cannot setup link1d2d: either mesh1d or mesh2d or both do not exist''
                                     [] s))))"
  using assms
  by (auto simp: setup_link1d2d_def mesh_names_def bind_result_def Let_def
        split: sum.splits option.splits)

text \<open>
  Claim C2 does not hold of the code: the check for \<open>mesh1d\<close> and \<open>mesh2d\<close> only logs
  the error and the method goes on. On a model whose mesh has the grid \<open>mesh2d\<close> only,
  asked for embedded links from 2D to 1D, the generator is called and the links it returns
  are stored in the mesh.
\<close>

theorem setup_link1d2d_without_mesh1d:
  "''mesh1d'' \<notin> set (mesh_names (fst (mesh id mesh2d_only)))
   \<and> setup_link1d2d id no_links_1d_to_2d two_links_embedded no_links_lateral
        ''2d_to_1d'' ''embedded'' None None 1 2 mesh2d_only = Inr mesh2d_only_linked
   \<and> map_of (data_vars (ds (the (mesh_field mesh2d_only_linked)))) ''link1d2d''
       = map_of (data_vars new_links) ''link1d2d''"
  by (simp add: setup_link1d2d_def mesh_def mesh_names_def mesh2d_only_def fresh_def
        two_links_embedded_def bind_result_def logmsg_def new_links_def set_link1d2d_def
        merge_def mesh2d_only_linked_def)

theorem setup_link1d2d_without_mesh1d_witness:
  "\<not> isl (setup_link1d2d id no_links_1d_to_2d two_links_embedded no_links_lateral
        ''2d_to_1d'' ''embedded'' None None 1 2 mesh2d_only)
   \<and> mesh_field (projr (setup_link1d2d id no_links_1d_to_2d two_links_embedded no_links_lateral
        ''2d_to_1d'' ''embedded'' None None 1 2 mesh2d_only))
       = mesh_field mesh2d_only_linked"
  using setup_link1d2d_without_mesh1d by simp

section \<open>The time window of the forcing\<close>

lemma set_forcing_logger: "set (logger s) \<subseteq> set (logger (set_forcing d n s))"
  by (auto simp: set_forcing_def Let_def)





section \<open>The bed level of the manholes\<close>

lemma point_distance_same: "point_distance (Point 0 0) (Point 0 0) = 0"
  by (simp add: point_distance_def)

text \<open>
  Without a dataset of the user the bed level of the manhole is the generated one: the
  lowest invert level shifted by \<open>bedlevel_shift\<close>.
\<close>

lemma setup_manholes_generated_bedlevel:
  "map (\<lambda>r. cell r ''bedlevel'')
        (rows (the (map_of (geoms (projr (setup_manholes id one_manhole standard_manhole
           point_distance one_node None True (- 1 / 2) None (1 / 1000)
           piped_model))) ''manholes'')))
     = [Some (Num (- 3 / 2))]"
  by (simp add: setup_manholes_def one_manhole_def cell_def point_distance_same
     set_branches_def set_branches_component_def branches_def piped_model_def fresh_def
     two_branches_gdf_def select_branchtype_def isin_def river_row_def pipe_row_def
     set_geoms_def logmsg_def Let_def bind_result_def standard_manhole_def user_manholes_def
     select_columns_def allowed_columns_manholes_def nearest_merge_def merge_row_def
     merge_cell_def put_cell_def add_columns_def network1d_dataset_def mesh_def linked_ugrid_def
     three_grids_def one_node_def copy_column_def set_column_def len_def has_na_def
     is_null_or_empty_def log_record_def)

text \<open>
  Claim C1 does not hold of the code: \<open>bedlevel\<close> is among the columns kept from the
  user's dataset, and \<open>nearest_merge\<close> with \<open>overwrite=True\<close> writes every kept column
  over the generated manhole. Here the generated bed level is \<open>-1.5\<close> and the bed level
  stored in \<open>geoms["manholes"]\<close> is the user's \<open>7\<close>.
\<close>

theorem setup_manholes_takes_user_bedlevel:
  "map (\<lambda>r. cell r ''bedlevel'') (rows (fst (one_manhole two_branches_gdf (- 1 / 2))))
     = [Some (Num (- 3 / 2))]
   \<and> \<not> isl (setup_manholes id one_manhole standard_manhole point_distance one_node
          (Some user_manholes) True (- 1 / 2) None (1 / 1000) piped_model)
   \<and> map (\<lambda>r. cell r ''bedlevel'')
        (rows (the (map_of (geoms (projr (setup_manholes id one_manhole standard_manhole
           point_distance one_node (Some user_manholes) True (- 1 / 2) None (1 / 1000)
           piped_model))) ''manholes'')))
     = [Some (Num 7)]"
  by (simp add: setup_manholes_def one_manhole_def cell_def point_distance_same
     set_branches_def set_branches_component_def branches_def piped_model_def fresh_def
     two_branches_gdf_def select_branchtype_def isin_def river_row_def pipe_row_def
     set_geoms_def logmsg_def Let_def bind_result_def standard_manhole_def user_manholes_def
     select_columns_def allowed_columns_manholes_def nearest_merge_def merge_row_def
     merge_cell_def put_cell_def add_columns_def network1d_dataset_def mesh_def linked_ugrid_def
     three_grids_def one_node_def copy_column_def set_column_def len_def has_na_def
     is_null_or_empty_def log_record_def)

end
